theory Spec2Isabelle
  imports Complex_Main "HOL-Library.AList"
begin

section \<open>Values of the script\<close>

text \<open>
  The component is typed with \<open>any\<close> wherever it touches the stored collections and the
  downloaded document, so both are modelled as the values that \<open>JSON.parse\<close> (and the
  extension storage, which keeps JSON) can produce. A number is the rational it denotes;
  an object lists its fields, each key once. \<open>undefined\<close> is \<open>None\<close> of
  \<open>json option\<close>.
\<close>

datatype json =
    JNull
  | JBool bool
  | JNum rat
  | JStr string
  | JArr "json list"
  | JObj "(string \<times> json) list"

text \<open>Truthiness, as \<open>!x\<close> and \<open>x || y\<close> test it.\<close>

fun truthy :: "json \<Rightarrow> bool" where
  "truthy JNull = False"
| "truthy (JBool b) = b"
| "truthy (JNum n) = (n \<noteq> 0)"
| "truthy (JStr s) = (s \<noteq> [])"
| "truthy (JArr xs) = True"
| "truthy (JObj fs) = True"

fun truthy_opt :: "json option \<Rightarrow> bool" where
  "truthy_opt None = False"
| "truthy_opt (Some v) = truthy v"

text \<open>\<open>x || []\<close>\<close>

definition or_empty :: "json option \<Rightarrow> json" where
  "or_empty x = (if truthy_opt x then the x else JArr [])"

fun isArray :: "json option \<Rightarrow> bool" where
  "isArray (Some (JArr xs)) = True"
| "isArray _ = False"

fun elems :: "json \<Rightarrow> json list" where
  "elems (JArr xs) = xs"
| "elems _ = []"

text \<open>
  Errors that can reach the \<open>catch\<close> blocks: an \<open>Error\<close> the code itself throws, an
  error raised by the runtime (reading a property of \<open>null\<close>, calling a method a value
  does not have, \<open>response.json()\<close> on a body that is not JSON, \<open>btoa\<close> on a string
  with a character above U+00FF), and a rejected
  \<open>fetch\<close> with its message. Texts shown to the user are kept as terms over the keys of
  the translation table \<open>t\<close>, which is not part of the component: \<open>Tr k\<close> is \<open>t(k)\<close>,
  \<open>Colon a b\<close> is the template \<open>`${a}: ${b}`\<close>, \<open>HTTP n\<close> is \<open>`HTTP ${n}`\<close>, \<open>Num n\<close> a
  status code printed in a template, \<open>Raw m\<close> a message supplied by the transport and
  \<open>Engine r\<close> the wording the runtime gives to its own error.
\<close>

datatype runtime = TypeError | SyntaxError | InvalidCharacterError

datatype wording =
    Tr string
  | Raw string
  | HTTP nat
  | Num nat
  | Colon wording wording
  | Engine runtime

datatype thrown =
    NewError wording
  | RuntimeError runtime
  | FetchError string

fun message_of :: "thrown \<Rightarrow> wording" where
  "message_of (NewError m) = m"
| "message_of (RuntimeError r) = Engine r"
| "message_of (FetchError m) = Raw m"

text \<open>
  Property access \<open>v.k\<close> for the names the component reads (\<open>prompts\<close>, \<open>categories\<close>,
  \<open>id\<close>), none of which a prototype defines: \<open>field\<close> is the value where the access is
  defined, \<open>get_prop\<close> adds the \<open>TypeError\<close> of reading a property of \<open>null\<close>.
\<close>

fun field :: "json \<Rightarrow> string \<Rightarrow> json option" where
  "field (JObj fs) k = map_of fs k"
| "field _ k = None"

fun get_prop :: "json \<Rightarrow> string \<Rightarrow> thrown + json option" where
  "get_prop JNull k = Inl (RuntimeError TypeError)"
| "get_prop v k = Inr (field v k)"

section \<open>Merging by id\<close>

text \<open>
  \<open>new Set(xs.map(p => p.id))\<close> and \<open>set.has(p.id)\<close>. A \<open>Set\<close> compares with
  SameValueZero: primitives by value, \<open>undefined\<close> with itself, and an object or array
  only with the very same reference, which an id read from storage and an id parsed from
  the download never are.
\<close>

fun primitive :: "json \<Rightarrow> bool" where
  "primitive (JArr xs) = False"
| "primitive (JObj fs) = False"
| "primitive _ = True"

fun same_value_zero :: "json option \<Rightarrow> json option \<Rightarrow> bool" where
  "same_value_zero None None = True"
| "same_value_zero (Some a) (Some b) = (primitive a \<and> a = b)"
| "same_value_zero _ _ = False"

fun has :: "json option list \<Rightarrow> json option \<Rightarrow> bool" where
  "has [] x = False"
| "has (i # is) x = (same_value_zero i x \<or> has is x)"

text \<open>\<open>xs.map((p) => p.id)\<close> on the elements of an array\<close>

fun map_id :: "json list \<Rightarrow> thrown + json option list" where
  "map_id [] = Inr []"
| "map_id (p # ps) =
     (case get_prop p ''id'' of
        Inl e \<Rightarrow> Inl e
      | Inr i \<Rightarrow> (case map_id ps of Inl e \<Rightarrow> Inl e | Inr is \<Rightarrow> Inr (i # is)))"

text \<open>\<open>xs.filter((p) => !ids.has(p.id))\<close> on the elements of an array\<close>

fun filter_new :: "json option list \<Rightarrow> json list \<Rightarrow> thrown + json list" where
  "filter_new ids [] = Inr []"
| "filter_new ids (p # ps) =
     (case get_prop p ''id'' of
        Inl e \<Rightarrow> Inl e
      | Inr i \<Rightarrow>
          (case filter_new ids ps of
             Inl e \<Rightarrow> Inl e
           | Inr qs \<Rightarrow> Inr (if has ids i then qs else p # qs)))"

text \<open>
  The three lines that the append branch of \<open>syncFromWebDAV\<close> runs once for the prompts
  and once for the categories: the ids of the local collection, the remote entries whose
  id is not among them, and the spread of both into one array. A value that is not an
  array (\<open>undefined\<close> included) has neither \<open>map\<close> nor \<open>filter\<close>, and the call
  raises a \<open>TypeError\<close>.
\<close>

fun merged :: "json \<Rightarrow> json option \<Rightarrow> thrown + json" where
  "merged (JArr ls) (Some (JArr rs)) =
     (case map_id ls of
        Inl e \<Rightarrow> Inl e
      | Inr ids \<Rightarrow>
          (case filter_new ids rs of
             Inl e \<Rightarrow> Inl e
           | Inr new \<Rightarrow> Inr (JArr (ls @ new))))"
| "merged (JArr ls) r =
     (case map_id ls of Inl e \<Rightarrow> Inl e | Inr ids \<Rightarrow> Inl (RuntimeError TypeError))"
| "merged l r = Inl (RuntimeError TypeError)"

section \<open>Storage, network and component state\<close>

datatype status = In_progress | Success | Error

text \<open>\<open>`sync_${Date.now()}`\<close> and \<open>`message_${Date.now()}`\<close>\<close>

datatype ident = Sync nat | Message nat

text \<open>
  \<open>interface SyncStatus\<close>. Its optional fields \<open>error\<close> and \<open>success\<close> are assigned
  nowhere in the component and are left out.
\<close>

record SyncStatus =
  sync_id :: ident
  status :: status
  startTime :: "nat option"
  completedTime :: "nat option"
  message :: "wording option"

text \<open>
  \<open>browser.storage.local\<close>, one field for each key the component uses: the two
  collections under \<open>BROWSER_STORAGE_KEY\<close> and \<open>CATEGORIES_STORAGE_KEY\<close> (constants of
  \<open>utils/constants\<close>, taken to be two keys different from each other and from the keys
  written literally here), the status record of each direction, and the records under
  \<open>`temp_webdav_message_${Date.now()}`\<close>, listed by their timestamp.
\<close>

record storage =
  prompts :: "json option"
  categories :: "json option"
  webdav_sync_status :: "SyncStatus option"
  webdav_from_sync_status :: "SyncStatus option"
  temp_webdav_message :: "(nat \<times> SyncStatus) list"

datatype storage_key = Webdav_sync_status | Webdav_from_sync_status

fun get_status :: "storage_key \<Rightarrow> storage \<Rightarrow> SyncStatus option" where
  "get_status Webdav_sync_status st = webdav_sync_status st"
| "get_status Webdav_from_sync_status st = webdav_from_sync_status st"

fun set_status :: "storage_key \<Rightarrow> SyncStatus \<Rightarrow> storage \<Rightarrow> storage" where
  "set_status Webdav_sync_status v st = st\<lparr>webdav_sync_status := Some v\<rparr>"
| "set_status Webdav_from_sync_status v st = st\<lparr>webdav_from_sync_status := Some v\<rparr>"

text \<open>
  A request handed to \<open>fetch\<close>, and what the awaited promise gives back: a rejection
  with its message, or a response with its status and the value \<open>response.json()\<close>
  parses from the body (\<open>None\<close> when the body is not JSON). The body of the \<open>PUT\<close> is
  the document itself: \<open>JSON.stringify\<close> followed by \<open>JSON.parse\<close> gives back a value
  of \<open>json\<close> unchanged.
\<close>

datatype http_method = PROPFIND | MKCOL | PUT | GET

text \<open>
  The user name and the password are JavaScript strings, kept as their UTF-16 code
  units, because \<open>btoa\<close> tells them apart: it encodes a string whose code units are all
  at most 255 and throws an \<open>InvalidCharacterError\<close> on any other. The base64 text is
  kept as the code units it encodes. \<open>basic\<close> is the argument of \<open>btoa\<close> in all four
  requests, \<open>`${user}:${pass}`\<close>.
\<close>

definition btoa :: "nat list \<Rightarrow> thrown + nat list" where
  "btoa cs = (if list_all (\<lambda>c. c \<le> 255) cs then Inr cs
             else Inl (RuntimeError InvalidCharacterError))"

definition basic :: "nat list \<Rightarrow> nat list \<Rightarrow> nat list" where
  "basic user pass = user @ 58 # pass"

datatype header =
    Authorization_Basic "nat list"
  | Depth string
  | Content_Type string

record request =
  url :: string
  http_method :: http_method
  http_headers :: "header list"
  body :: "json option"

datatype outcome = Rejected string | Response nat "json option"

text \<open>\<open>response.ok\<close>\<close>

definition ok :: "nat \<Rightarrow> bool" where
  "ok st = (200 \<le> st \<and> st \<le> 299)"

datatype message_type = Msg_success | Msg_error | Msg_info

datatype mode = Replace | Append

text \<open>
  The state of the component: the settings, the message on display, \<open>currentSyncId\<close>,
  the interval held in \<open>syncCheckIntervalRef\<close> (the sync id and key it polls), the
  extension storage, the requests issued so far (oldest first) and whether a page reload
  has been scheduled.
\<close>

record state =
  serverUrl :: string
  username :: "nat list"
  password :: "nat list"
  syncPath :: string
  testMessage :: "(message_type \<times> wording) option"
  currentSyncId :: "ident option"
  syncCheckInterval :: "(ident \<times> storage_key) option"
  local :: storage
  fetched :: "request list"
  reload_scheduled :: bool

definition fetch :: "request \<Rightarrow> state \<Rightarrow> state" where
  "fetch rq s = s\<lparr>fetched := fetched s @ [rq]\<rparr>"

text \<open>
  \<open>showMessage\<close>: the message goes on display, and a success or error message is also
  stored under a key of its own. The timers that clear both five seconds later are later
  events and not part of the call. One reading of \<open>Date.now()\<close> serves a whole call.
\<close>

definition showMessage :: "nat \<Rightarrow> message_type \<Rightarrow> wording \<Rightarrow> state \<Rightarrow> state" where
  "showMessage now type txt s =
     (let s1 = s\<lparr>testMessage := Some (type, txt)\<rparr> in
      if type = Msg_success \<or> type = Msg_error then
        s1\<lparr>local := (local s1)\<lparr>temp_webdav_message :=
              AList.update now
                \<lparr>sync_id = Message now,
                 status = (if type = Msg_success then Success else Error),
                 startTime = None, completedTime = Some now, message = Some txt\<rparr>
                (temp_webdav_message (local s1))\<rparr>\<rparr>
      else s1)"

section \<open>testWebDAVConnection\<close>

record test_result =
  success :: bool
  error :: "wording option"

text \<open>
  \<open>testWebDAVConnection(url, user, pass)\<close>. The headers are built first, so a user name
  or password that \<open>btoa\<close> refuses ends in the \<open>catch\<close> with no request sent; otherwise
  one \<open>PROPFIND\<close> is sent and the result follows from what came back. The value is the
  requests sent together with the object returned.
  \<open>error.message || t("testConnectionError")\<close> falls back to the translated text when
  the message is empty; the runtime's wording for its own errors is not empty.
\<close>

fun message_or :: "string \<Rightarrow> thrown \<Rightarrow> wording" where
  "message_or k (FetchError m) = (if m \<noteq> [] then Raw m else Tr k)"
| "message_or k e = message_of e"

definition propfind :: "string \<Rightarrow> nat list \<Rightarrow> request" where
  "propfind u b =
     \<lparr>url = u, http_method = PROPFIND,
      http_headers = [Authorization_Basic b, Depth ''0'', Content_Type ''application/xml''],
      body = None\<rparr>"

fun test_response :: "outcome \<Rightarrow> thrown + test_result" where
  "test_response (Rejected m) = Inl (FetchError m)"
| "test_response (Response st b) =
     Inr (if ok st \<or> st = 207 then \<lparr>success = True, error = None\<rparr>
          else if st = 401 then \<lparr>success = False, error = Some (Tr ''webdavAuthFailed'')\<rparr>
          else \<lparr>success = False,
                 error = Some (Colon (Tr ''webdavConnectionFailed'') (Num st))\<rparr>)"

definition testWebDAVConnection ::
  "string \<Rightarrow> nat list \<Rightarrow> nat list \<Rightarrow> outcome \<Rightarrow> request list \<times> test_result" where
  "testWebDAVConnection u user pass r =
     (case btoa (basic user pass) of
        Inl e \<Rightarrow> ([], \<lparr>success = False, error = Some (message_or ''testConnectionError'' e)\<rparr>)
      | Inr b \<Rightarrow>
          ([propfind u b],
           case test_response r of
             Inr res \<Rightarrow> res
           | Inl e \<Rightarrow> \<lparr>success = False, error = Some (message_or ''testConnectionError'' e)\<rparr>))"

section \<open>The status poller\<close>

text \<open>\<open>startSyncStatusPolling\<close>: the previous interval is replaced.\<close>

definition startSyncStatusPolling :: "ident \<Rightarrow> storage_key \<Rightarrow> state \<Rightarrow> state" where
  "startSyncStatusPolling syncId storageKey s =
     s\<lparr>currentSyncId := Some syncId, syncCheckInterval := Some (syncId, storageKey)\<rparr>"

text \<open>One run of the interval's callback, two seconds after the previous one.\<close>

definition poll :: "state \<Rightarrow> state" where
  "poll s =
     (case syncCheckInterval s of
        None \<Rightarrow> s
      | Some (syncId, storageKey) \<Rightarrow>
          (case get_status storageKey (local s) of
             Some syncStatus \<Rightarrow>
               if sync_id syncStatus = syncId then
                 (if status syncStatus = Success \<or> status syncStatus = Error
                  then s\<lparr>currentSyncId := None, syncCheckInterval := None\<rparr>
                  else s)
               else s\<lparr>currentSyncId := None, syncCheckInterval := None\<rparr>
           | None \<Rightarrow> s\<lparr>currentSyncId := None, syncCheckInterval := None\<rparr>))"

section \<open>handleSyncToWebDAV and syncFromWebDAV\<close>

text \<open>\<open>serverUrl.replace(/\/$/, '')\<close> removes one slash at the end.\<close>

definition strip_slash :: "string \<Rightarrow> string" where
  "strip_slash u = (if u \<noteq> [] \<and> last u = CHR ''/'' then butlast u else u)"

definition fullPath :: "state \<Rightarrow> string" where
  "fullPath s = strip_slash (serverUrl s) @ syncPath s"

text \<open>
  \<open>syncPath.substring(0, syncPath.lastIndexOf('/'))\<close>: what precedes the last slash,
  and the empty string when there is no slash (\<open>substring(0, -1)\<close>).
\<close>

definition dirPath :: "string \<Rightarrow> string" where
  "dirPath p = rev (tl (dropWhile (\<lambda>c. c \<noteq> CHR ''/'') (rev p)))"

text \<open>The document that \<open>handleSyncToWebDAV\<close> builds from the stored collections.\<close>

definition syncData :: "string \<Rightarrow> storage \<Rightarrow> json" where
  "syncData exportedAt st =
     JObj [(''version'', JNum 1),
           (''exportedAt'', JStr exportedAt),
           (''prompts'', or_empty (prompts st)),
           (''categories'', or_empty (categories st))]"

text \<open>
  Both handlers are asynchronous. Each is split where it awaits the response to its
  \<open>PUT\<close> or \<open>GET\<close>: the first half runs from the call to that point and either returns
  early or is left \<open>Awaiting\<close> with its \<open>syncId\<close>; the second half runs when the response
  arrives. Storage calls complete at once; the \<open>MKCOL\<close> request is awaited too, but
  nothing is done with its response or failure.
\<close>

datatype pending = Returned (state_of: state) | Awaiting (syncId_of: ident) (state_of: state)

text \<open>The two \<open>catch\<close> blocks.\<close>

definition push_catch :: "nat \<Rightarrow> thrown \<Rightarrow> state \<Rightarrow> state" where
  "push_catch now e s =
     (showMessage now Msg_error (Colon (Tr ''syncToWebDAVFailed'') (message_of e)) s)
       \<lparr>currentSyncId := None\<rparr>"

definition pull_catch :: "nat \<Rightarrow> thrown \<Rightarrow> state \<Rightarrow> state" where
  "pull_catch now e s =
     (showMessage now Msg_error (Colon (Tr ''syncFromWebDAVFailed'') (message_of e)) s)
       \<lparr>currentSyncId := None\<rparr>"

text \<open>
  In the first half of a push, \<open>btoa\<close> runs while the headers of the \<open>MKCOL\<close> and of
  the \<open>PUT\<close> are built. Where it throws, the inner \<open>try\<close> around the \<open>MKCOL\<close> swallows
  the first error, the second reaches the \<open>catch\<close> of the handler, and no request has
  been sent.
\<close>

definition push_begin :: "nat \<Rightarrow> string \<Rightarrow> state \<Rightarrow> pending" where
  "push_begin now exportedAt s =
     (if serverUrl s = [] \<or> username s = [] \<or> password s = [] then
        Returned (showMessage now Msg_error (Tr ''webdavNotConfigured'') s)
      else if currentSyncId s \<noteq> None then
        Returned (showMessage now Msg_info (Tr ''syncTaskInProgress'') s)
      else
        let s1 = showMessage now Msg_info (Tr ''startingSyncToWebDAV'') s;
            syncId = Sync now;
            s2 = s1\<lparr>local := set_status Webdav_sync_status
                   \<lparr>sync_id = syncId, status = In_progress, startTime = Some now,
                    completedTime = None, message = Some (Tr ''syncingToWebDAVMessage'')\<rparr>
                   (local s1)\<rparr>;
            doc = syncData exportedAt (local s2)
        in case btoa (basic (username s2) (password s2)) of
             Inl e \<Rightarrow> Returned (push_catch now e s2)
           | Inr b \<Rightarrow>
               let auth = Authorization_Basic b;
                   s3 = (if dirPath (syncPath s2) \<noteq> [] then
                           fetch \<lparr>url = strip_slash (serverUrl s2) @ dirPath (syncPath s2),
                                  http_method = MKCOL, http_headers = [auth], body = None\<rparr> s2
                         else s2);
                   s4 = fetch \<lparr>url = fullPath s3, http_method = PUT,
                               http_headers = [auth, Content_Type ''application/json''],
                               body = Some doc\<rparr> s3
               in Awaiting syncId s4)"

text \<open>The rest of the \<open>try\<close> block: \<open>Inl\<close> is what is thrown to the \<open>catch\<close>.\<close>

fun push_try :: "nat \<Rightarrow> ident \<Rightarrow> outcome \<Rightarrow> state \<Rightarrow> thrown + state" where
  "push_try now syncId (Rejected m) s = Inl (FetchError m)"
| "push_try now syncId (Response st b) s =
     (if ok st \<or> st = 201 \<or> st = 204 then
        let s1 = s\<lparr>local := set_status Webdav_sync_status
                   \<lparr>sync_id = syncId, status = Success, startTime = None,
                    completedTime = Some now, message = Some (Tr ''syncToWebDAVSuccess'')\<rparr>
                   (local s)\<rparr>;
            s2 = showMessage now Msg_success (Tr ''syncToWebDAVSuccess'') s1
        in Inr (startSyncStatusPolling syncId Webdav_sync_status s2)
      else Inl (NewError (HTTP st)))"

definition push_complete :: "nat \<Rightarrow> ident \<Rightarrow> outcome \<Rightarrow> state \<Rightarrow> state" where
  "push_complete now syncId r s =
     (case push_try now syncId r s of
        Inr s' \<Rightarrow> s'
      | Inl e \<Rightarrow> push_catch now e s)"

text \<open>A whole run of the handler, with nothing else happening in between.\<close>

definition handleSyncToWebDAV :: "nat \<Rightarrow> string \<Rightarrow> nat \<Rightarrow> outcome \<Rightarrow> state \<Rightarrow> state" where
  "handleSyncToWebDAV now exportedAt now' r s =
     (case push_begin now exportedAt s of
        Returned s' \<Rightarrow> s'
      | Awaiting syncId s' \<Rightarrow> push_complete now' syncId r s')"

definition pull_begin :: "nat \<Rightarrow> mode \<Rightarrow> state \<Rightarrow> pending" where
  "pull_begin now mode s =
     (if serverUrl s = [] \<or> username s = [] \<or> password s = [] then
        Returned (showMessage now Msg_error (Tr ''webdavNotConfigured'') s)
      else if currentSyncId s \<noteq> None then
        Returned (showMessage now Msg_info (Tr ''syncTaskInProgress'') s)
      else
        let modeText = (if mode = Replace then Tr ''startingWebDAVOverwriteSync''
                        else Tr ''startingWebDAVAppendSync'');
            s1 = showMessage now Msg_info modeText s;
            syncId = Sync now;
            s2 = s1\<lparr>local := set_status Webdav_from_sync_status
                   \<lparr>sync_id = syncId, status = In_progress, startTime = Some now,
                    completedTime = None,
                    message = Some (if mode = Replace
                                    then Tr ''syncingFromWebDAVOverwriteMessage''
                                    else Tr ''syncingFromWebDAVAppendMessage'')\<rparr>
                   (local s1)\<rparr>
        in case btoa (basic (username s2) (password s2)) of
             Inl e \<Rightarrow> Returned (pull_catch now e s2)
           | Inr b \<Rightarrow>
               Awaiting syncId
                 (fetch \<lparr>url = fullPath s2, http_method = GET,
                         http_headers = [Authorization_Basic b], body = None\<rparr> s2))"

text \<open>
  What the two branches on \<open>mode\<close> write to storage, from a document whose \<open>prompts\<close>
  has passed the check.
\<close>

fun store_downloaded :: "mode \<Rightarrow> json \<Rightarrow> storage \<Rightarrow> thrown + storage" where
  "store_downloaded Replace doc st =
     Inr (st\<lparr>prompts := field doc ''prompts'',
              categories := Some (or_empty (field doc ''categories''))\<rparr>)"
| "store_downloaded Append doc st =
     (let localPrompts = or_empty (prompts st);
          localCategories = or_empty (categories st)
      in case merged localPrompts (field doc ''prompts'') of
           Inl e \<Rightarrow> Inl e
         | Inr mergedPrompts \<Rightarrow>
             (case merged localCategories (Some (or_empty (field doc ''categories''))) of
                Inl e \<Rightarrow> Inl e
              | Inr mergedCategories \<Rightarrow>
                  Inr (st\<lparr>prompts := Some mergedPrompts,
                           categories := Some mergedCategories\<rparr>)))"

fun pull_try :: "nat \<Rightarrow> mode \<Rightarrow> ident \<Rightarrow> outcome \<Rightarrow> state \<Rightarrow> thrown + state" where
  "pull_try now mode syncId (Rejected m) s = Inl (FetchError m)"
| "pull_try now mode syncId (Response st b) s =
     (if \<not> ok st then
        (if st = 404 then Inl (NewError (Tr ''webdavFileNotFound''))
         else Inl (NewError (HTTP st)))
      else
        case b of
          None \<Rightarrow> Inl (RuntimeError SyntaxError)
        | Some doc \<Rightarrow>
            (case get_prop doc ''prompts'' of
               Inl e \<Rightarrow> Inl e
             | Inr ps \<Rightarrow>
                 if \<not> truthy_opt ps \<or> \<not> isArray ps then
                   Inl (NewError (Tr ''invalidWebDAVDataFormat''))
                 else
                   (case store_downloaded mode doc (local s) of
                      Inl e \<Rightarrow> Inl e
                    | Inr st' \<Rightarrow>
                        let s1 = s\<lparr>local := set_status Webdav_from_sync_status
                                   \<lparr>sync_id = syncId, status = Success, startTime = None,
                                    completedTime = Some now,
                                    message = Some (Tr ''syncFromWebDAVSuccess'')\<rparr> st'\<rparr>;
                            s2 = showMessage now Msg_success (Tr ''syncFromWebDAVSuccess'') s1;
                            s3 = startSyncStatusPolling syncId Webdav_from_sync_status s2
                        in Inr (s3\<lparr>reload_scheduled := True\<rparr>))))"

definition pull_complete :: "nat \<Rightarrow> mode \<Rightarrow> ident \<Rightarrow> outcome \<Rightarrow> state \<Rightarrow> state" where
  "pull_complete now mode syncId r s =
     (case pull_try now mode syncId r s of
        Inr s' \<Rightarrow> s'
      | Inl e \<Rightarrow> pull_catch now e s)"

definition syncFromWebDAV :: "nat \<Rightarrow> mode \<Rightarrow> nat \<Rightarrow> outcome \<Rightarrow> state \<Rightarrow> state" where
  "syncFromWebDAV now mode now' r s =
     (case pull_begin now mode s of
        Returned s' \<Rightarrow> s'
      | Awaiting syncId s' \<Rightarrow> pull_complete now' mode syncId r s')"

section \<open>Vocabulary of the properties\<close>

text \<open>
  The ids of a collection, read as the merge reads them, and a collection in which no
  two entries have the same id.
\<close>

definition ids :: "json list \<Rightarrow> json option list" where
  "ids xs = map (\<lambda>p. field p ''id'') xs"

fun distinct_ids :: "json list \<Rightarrow> bool" where
  "distinct_ids [] = True"
| "distinct_ids (p # ps) = (\<not> has (ids ps) (field p ''id'') \<and> distinct_ids ps)"

text \<open>
  Sample data: a configured component at rest with empty storage (user \<open>ann\<close>,
  password \<open>pw\<close>, as code units), an entry that has
  only an id, a document with given \<open>prompts\<close> and \<open>categories\<close>, and a state with
  given stored collections.
\<close>

definition idle :: state where
  "idle =
     \<lparr>serverUrl = ''https://dav.example.org/'', username = [97, 110, 110], password = [112, 119],
      syncPath = ''/quick-prompt/prompts.json'', testMessage = None, currentSyncId = None,
      syncCheckInterval = None,
      local = \<lparr>prompts = None, categories = None, webdav_sync_status = None,
               webdav_from_sync_status = None, temp_webdav_message = []\<rparr>,
      fetched = [], reload_scheduled = False\<rparr>"

definition entry :: "string \<Rightarrow> json" where
  "entry i = JObj [(''id'', JStr i)]"

definition document :: "json \<Rightarrow> json \<Rightarrow> json" where
  "document ps cs = JObj [(''version'', JNum 1), (''prompts'', ps), (''categories'', cs)]"

definition with_local :: "json \<Rightarrow> json \<Rightarrow> state \<Rightarrow> state" where
  "with_local ps cs s = s\<lparr>local := (local s)\<lparr>prompts := Some ps, categories := Some cs\<rparr>\<rparr>"

text \<open>
  Two more sample states. \<open>pushing\<close> is the component while its first upload awaits the
  response to the \<open>PUT\<close>. \<open>wiped\<close> is the component after an upload of the prompts
  \<open>a, b\<close> and the category \<open>k\<close> has succeeded, the poller has run once, and both
  stored collections have then been emptied.
\<close>

definition pushing :: state where
  "pushing = state_of (push_begin 1000 ''2025-01-01T00:00:00.000Z'' idle)"

definition wiped :: state where
  "wiped = with_local (JArr []) (JArr [])
     (poll (projr (push_try 1500 (Sync 1000) (Response 201 None)
        (state_of (push_begin 1000 ''2025-01-01T00:00:00.000Z''
           (with_local (JArr [entry ''a'', entry ''b'']) (JArr [entry ''k'']) idle))))))"

section \<open>The merge\<close>

lemmas run_defs = push_begin_def pull_begin_def push_complete_def pull_complete_def
  push_catch_def pull_catch_def btoa_def basic_def handleSyncToWebDAV_def syncFromWebDAV_def showMessage_def startSyncStatusPolling_def fetch_def
  fullPath_def strip_slash_def dirPath_def syncData_def or_empty_def ok_def Let_def poll_def

lemma not_isl_projr: "\<not> isl x \<Longrightarrow> x = Inr (projr x)"
  by (cases x) auto

lemma get_prop_Inr: "get_prop p k = Inr v \<Longrightarrow> v = field p k"
  by (cases p) auto

lemma map_id_Inr: "map_id ls = Inr is \<Longrightarrow> is = ids ls"
  by (induction ls arbitrary: "is") (auto simp: ids_def split: sum.splits dest: get_prop_Inr)

lemma filter_new_Inr:
  "filter_new is rs = Inr new \<Longrightarrow> new = filter (\<lambda>p. \<not> has is (field p ''id'')) rs"
  by (induction rs arbitrary: new) (auto split: sum.splits if_splits dest: get_prop_Inr)

lemma merged_Inr:
  assumes "merged l r = Inr m"
  shows "\<exists>ls rs. l = JArr ls \<and> r = Some (JArr rs) \<and>
           m = JArr (ls @ filter (\<lambda>p. \<not> has (ids ls) (field p ''id'')) rs)"
  using assms
  by (induction l r rule: merged.induct)
     (auto split: sum.splits dest!: map_id_Inr filter_new_Inr)

text \<open>The merge goes through when no entry on either side is \<open>null\<close>.\<close>

lemma map_id_total: "JNull \<notin> set ls \<Longrightarrow> map_id ls = Inr (ids ls)"
proof (induction ls)
  case Nil
  show ?case by (simp add: ids_def)
next
  case (Cons p ps)
  then have "get_prop p ''id'' = Inr (field p ''id'')"
    by (cases p) auto
  with Cons show ?case by (simp add: ids_def)
qed

lemma filter_new_total:
  "JNull \<notin> set rs \<Longrightarrow>
   filter_new is rs = Inr (filter (\<lambda>p. \<not> has is (field p ''id'')) rs)"
proof (induction rs)
  case Nil
  show ?case by simp
next
  case (Cons p ps)
  then have "get_prop p ''id'' = Inr (field p ''id'')"
    by (cases p) auto
  with Cons show ?case by simp
qed

lemma merged_total:
  "JNull \<notin> set ls \<Longrightarrow> JNull \<notin> set rs \<Longrightarrow>
   merged (JArr ls) (Some (JArr rs)) =
     Inr (JArr (ls @ filter (\<lambda>p. \<not> has (ids ls) (field p ''id'')) rs))"
  by (simp add: map_id_total filter_new_total)

lemma same_value_zero_sym: "same_value_zero a b = same_value_zero b a"
  by (induction a b rule: same_value_zero.induct) auto

lemma has_ids: "has (ids ys) x = (\<exists>y\<in>set ys. same_value_zero (field y ''id'') x)"
  by (induction ys) (auto simp: ids_def)

lemma has_append: "has (a @ b) x = (has a x \<or> has b x)"
  by (induction a) auto

lemma ids_append: "ids (xs @ ys) = ids xs @ ids ys"
  by (simp add: ids_def)

lemma has_ids_filter: "has (ids (filter P ys)) x \<Longrightarrow> has (ids ys) x"
  by (auto simp: has_ids)

lemma distinct_ids_filter: "distinct_ids ys \<Longrightarrow> distinct_ids (filter P ys)"
  by (induction ys) (auto dest: has_ids_filter)

lemma distinct_ids_append:
  "distinct_ids (xs @ ys) =
     (distinct_ids xs \<and> distinct_ids ys \<and> (\<forall>x\<in>set xs. \<not> has (ids ys) (field x ''id'')))"
  by (induction xs) (auto simp: ids_append has_append)

lemma distinct_ids_merge:
  assumes "distinct_ids ls" "distinct_ids rs"
  shows "distinct_ids (ls @ filter (\<lambda>p. \<not> has (ids ls) (field p ''id'')) rs)"
proof -
  have "\<not> has (ids (filter (\<lambda>p. \<not> has (ids ls) (field p ''id'')) rs)) (field x ''id'')"
    if "x \<in> set ls" for x
  proof
    assume "has (ids (filter (\<lambda>p. \<not> has (ids ls) (field p ''id'')) rs)) (field x ''id'')"
    then obtain y where y: "y \<in> set rs" "\<not> has (ids ls) (field y ''id'')"
      "same_value_zero (field y ''id'') (field x ''id'')"
      by (auto simp: has_ids)
    from y(3) have "same_value_zero (field x ''id'') (field y ''id'')"
      by (simp add: same_value_zero_sym)
    with that have "has (ids ls) (field y ''id'')"
      by (auto simp: has_ids)
    with y(2) show False by simp
  qed
  with assms show ?thesis
    by (simp add: distinct_ids_append distinct_ids_filter)
qed

section \<open>A pull that goes through\<close>

lemma isArray_iff: "isArray x = (\<exists>xs. x = Some (JArr xs))"
  by (cases x rule: isArray.cases) auto

lemma pull_try_Inr:
  assumes "pull_try now mode syncId r s = Inr s'"
  shows "\<exists>st doc ps stg. r = Response st (Some doc) \<and> ok st \<and>
           field doc ''prompts'' = Some (JArr ps) \<and>
           store_downloaded mode doc (local s) = Inr stg \<and>
           prompts (local s') = prompts stg \<and> categories (local s') = categories stg"
proof (cases r)
  case (Rejected m)
  with assms show ?thesis by simp
next
  case (Response st b)
  with assms obtain doc where b: "b = Some doc" and okst: "ok st"
    by (auto split: if_splits option.splits)
  from assms Response b okst obtain ps where ps: "get_prop doc ''prompts'' = Inr ps"
    by (auto split: sum.splits)
  from assms Response b okst ps have arr: "isArray ps"
    by (auto split: if_splits)
  then obtain xs where xs: "ps = Some (JArr xs)"
    by (auto simp: isArray_iff)
  from ps xs have f: "field doc ''prompts'' = Some (JArr xs)"
    by (auto dest: get_prop_Inr)
  from assms Response b okst ps xs obtain stg
    where stg: "store_downloaded mode doc (local s) = Inr stg"
    by (auto split: sum.splits)
  from assms Response b okst ps xs stg
  have "prompts (local s') = prompts stg \<and> categories (local s') = categories stg"
    by (auto simp: showMessage_def startSyncStatusPolling_def Let_def)
  with Response b okst f stg show ?thesis by blast
qed

lemma pull_try_store:
  assumes "ok st" "field doc ''prompts'' = Some (JArr ps)"
    and "store_downloaded mode doc (local s) = Inr stg"
  shows "\<exists>s'. pull_try now mode syncId (Response st (Some doc)) s = Inr s' \<and>
           prompts (local s') = prompts stg \<and> categories (local s') = categories stg \<and>
           testMessage s' = Some (Msg_success, Tr ''syncFromWebDAVSuccess'')"
proof -
  from assms(2) have "get_prop doc ''prompts'' = Inr (Some (JArr ps))"
    by (cases doc) auto
  with assms(1,3) show ?thesis
    by (simp add: showMessage_def startSyncStatusPolling_def Let_def)
qed

lemma pull_append_result:
  assumes "pull_try now Append syncId (Response st (Some D)) s = Inr s'"
  shows "prompts (local s') =
           Some (JArr (elems (or_empty (prompts (local s))) @
                 filter (\<lambda>p. \<not> has (ids (elems (or_empty (prompts (local s))))) (field p ''id''))
                   (elems (or_empty (field D ''prompts'')))))
         \<and> categories (local s') =
           Some (JArr (elems (or_empty (categories (local s))) @
                 filter (\<lambda>c. \<not> has (ids (elems (or_empty (categories (local s))))) (field c ''id''))
                   (elems (or_empty (field D ''categories'')))))"
proof -
  from pull_try_Inr [OF assms] obtain ps stg where
    f: "field D ''prompts'' = Some (JArr ps)" and
    stg: "store_downloaded Append D (local s) = Inr stg" and
    eq: "prompts (local s') = prompts stg" "categories (local s') = categories stg"
    by auto
  from stg obtain mp mc where
    mp: "merged (or_empty (prompts (local s))) (field D ''prompts'') = Inr mp" and
    mc: "merged (or_empty (categories (local s))) (Some (or_empty (field D ''categories''))) = Inr mc" and
    st: "stg = (local s)\<lparr>prompts := Some mp, categories := Some mc\<rparr>"
    by (auto simp: Let_def split: sum.splits)
  from merged_Inr [OF mp] f have
    "mp = JArr (elems (or_empty (prompts (local s))) @
                 filter (\<lambda>p. \<not> has (ids (elems (or_empty (prompts (local s))))) (field p ''id''))
                   (elems (or_empty (field D ''prompts''))))"
    by (auto simp: or_empty_def)
  moreover from merged_Inr [OF mc] have
    "mc = JArr (elems (or_empty (categories (local s))) @
                 filter (\<lambda>c. \<not> has (ids (elems (or_empty (categories (local s))))) (field c ''id''))
                   (elems (or_empty (field D ''categories''))))"
    by auto
  ultimately show ?thesis using eq st by simp
qed

text \<open>
  An append pull goes through whenever the response is ok, the stored collections are
  arrays (or missing, or falsy), the downloaded \<open>prompts\<close> is an array, the downloaded
  \<open>categories\<close> is an array (or missing, or falsy), and no entry of the four is \<open>null\<close>.
\<close>

lemma pull_append_accepts:
  assumes "ok st"
    and "field D ''prompts'' = Some (JArr R)" "JNull \<notin> set R"
    and "or_empty (field D ''categories'') = JArr Rc" "JNull \<notin> set Rc"
    and "or_empty (prompts (local s)) = JArr L" "JNull \<notin> set L"
    and "or_empty (categories (local s)) = JArr Lc" "JNull \<notin> set Lc"
  shows "\<exists>s'. pull_try now Append syncId (Response st (Some D)) s = Inr s'"
proof -
  have "store_downloaded Append D (local s) =
      Inr ((local s)\<lparr>prompts := Some (JArr (L @ filter (\<lambda>p. \<not> has (ids L) (field p ''id'')) R)),
                     categories := Some (JArr (Lc @ filter (\<lambda>p. \<not> has (ids Lc) (field p ''id'')) Rc))\<rparr>)"
    using assms(2-) merged_total [of L R] merged_total [of Lc Rc]
    by (simp del: merged.simps)
  from pull_try_store [OF assms(1,2) this] show ?thesis
    by blast
qed

text \<open>
  Evaluation of one append pull, used below: local prompts \<open>a, b\<close>, downloaded prompts
  \<open>b, c\<close>, no categories on either side.
\<close>

lemma pull_append_ab_bc:
  "\<not> isl (pull_try 2000 Append (Sync 1000)
            (Response 200 (Some (document (JArr [entry ''b'', entry ''c'']) (JArr []))))
            (with_local (JArr [entry ''a'', entry ''b'']) (JArr []) idle))"
  by (simp add: ok_def document_def entry_def with_local_def idle_def or_empty_def Let_def
        showMessage_def startSyncStatusPolling_def)

text \<open>
  C1. When a pull in append mode goes through on a downloaded document \<open>D\<close>, the stored
  prompts afterwards are the local prompts as they were, unchanged and in their order,
  followed by those entries of \<open>D.prompts\<close> whose id is not among the ids of the local
  prompts, in the order of \<open>D.prompts\<close>; and the same for the categories, where a missing
  \<open>D.categories\<close> counts as the empty array.
\<close>

theorem append_local_then_new:
  assumes "pull_try now Append syncId (Response st (Some D)) s = Inr s'"
  shows "prompts (local s') =
           Some (JArr (elems (or_empty (prompts (local s))) @
                 filter (\<lambda>p. \<not> has (ids (elems (or_empty (prompts (local s))))) (field p ''id''))
                   (elems (or_empty (field D ''prompts'')))))
         \<and> categories (local s') =
           Some (JArr (elems (or_empty (categories (local s))) @
                 filter (\<lambda>c. \<not> has (ids (elems (or_empty (categories (local s))))) (field c ''id''))
                   (elems (or_empty (field D ''categories'')))))"
  using assms by (rule pull_append_result)

theorem append_local_then_new_witness:
  "pull_try 2000 Append (Sync 1000)
     (Response 200 (Some (document (JArr [entry ''b'', entry ''c'']) (JArr []))))
     (with_local (JArr [entry ''a'', entry ''b'']) (JArr []) idle)
   = Inr (projr (pull_try 2000 Append (Sync 1000)
     (Response 200 (Some (document (JArr [entry ''b'', entry ''c'']) (JArr []))))
     (with_local (JArr [entry ''a'', entry ''b'']) (JArr []) idle)))
   \<and> prompts (local (projr (pull_try 2000 Append (Sync 1000)
     (Response 200 (Some (document (JArr [entry ''b'', entry ''c'']) (JArr []))))
     (with_local (JArr [entry ''a'', entry ''b'']) (JArr []) idle))))
     = Some (JArr [entry ''a'', entry ''b'', entry ''c''])
   \<and> categories (local (projr (pull_try 2000 Append (Sync 1000)
     (Response 200 (Some (document (JArr [entry ''b'', entry ''c'']) (JArr []))))
     (with_local (JArr [entry ''a'', entry ''b'']) (JArr []) idle))))
     = Some (JArr [])"
proof -
  have h: "pull_try 2000 Append (Sync 1000)
     (Response 200 (Some (document (JArr [entry ''b'', entry ''c'']) (JArr []))))
     (with_local (JArr [entry ''a'', entry ''b'']) (JArr []) idle)
   = Inr (projr (pull_try 2000 Append (Sync 1000)
     (Response 200 (Some (document (JArr [entry ''b'', entry ''c'']) (JArr []))))
     (with_local (JArr [entry ''a'', entry ''b'']) (JArr []) idle)))"
    using pull_append_ab_bc by (rule not_isl_projr)
  from append_local_then_new [OF h] h show ?thesis
    by (simp add: document_def entry_def with_local_def idle_def or_empty_def ids_def)
qed

section \<open>The guard against a second sync\<close>

lemma push_begin_Awaiting:
  assumes "push_begin now exportedAt s = Awaiting syncId s1"
  shows "last (fetched s1) =
           \<lparr>url = fullPath s, http_method = PUT,
            http_headers = [Authorization_Basic (basic (username s) (password s)),
                            Content_Type ''application/json''],
            body = Some (syncData exportedAt (local s))\<rparr>
         \<and> currentSyncId s1 = None
         \<and> webdav_sync_status (local s1) =
             Some \<lparr>sync_id = syncId, status = In_progress, startTime = Some now,
                   completedTime = None, message = Some (Tr ''syncingToWebDAVMessage'')\<rparr>
         \<and> serverUrl s1 = serverUrl s \<and> username s1 = username s \<and> password s1 = password s
         \<and> syncPath s1 = syncPath s
         \<and> serverUrl s \<noteq> [] \<and> username s \<noteq> [] \<and> password s \<noteq> []
         \<and> list_all (\<lambda>c. c \<le> 255) (basic (username s) (password s))"
  using assms
  by (auto simp: push_begin_def Let_def showMessage_def fetch_def fullPath_def syncData_def
        btoa_def split: if_splits)

lemma pull_begin_Awaiting:
  assumes "pull_begin now mode s = Awaiting syncId s1"
  shows "last (fetched s1) =
           \<lparr>url = fullPath s, http_method = GET,
            http_headers = [Authorization_Basic (basic (username s) (password s))],
            body = None\<rparr>
         \<and> currentSyncId s1 = None
         \<and> map_option status (webdav_from_sync_status (local s1)) = Some In_progress
         \<and> map_option sync_id (webdav_from_sync_status (local s1)) = Some syncId
         \<and> serverUrl s1 = serverUrl s \<and> username s1 = username s \<and> password s1 = password s
         \<and> syncPath s1 = syncPath s
         \<and> serverUrl s \<noteq> [] \<and> username s \<noteq> [] \<and> password s \<noteq> []
         \<and> list_all (\<lambda>c. c \<le> 255) (basic (username s) (password s))"
  using assms
  by (auto simp: pull_begin_def Let_def showMessage_def fetch_def fullPath_def
        btoa_def split: if_splits)

text \<open>
  \<open>currentSyncId\<close> is assigned by \<open>startSyncStatusPolling\<close> alone, which both handlers
  call after their terminal record is written. While a handler awaits its response the
  guard is therefore open, and a second call of the same handler starts a second sync.
\<close>

lemma guard_open_while_pushing:
  assumes "push_begin now exportedAt s = Awaiting syncId s1"
  shows "\<exists>s2. push_begin now' exportedAt' s1 = Awaiting (Sync now') s2"
  using push_begin_Awaiting [OF assms]
  by (simp add: push_begin_def Let_def btoa_def showMessage_def)

lemma guard_open_while_pulling:
  assumes "pull_begin now mode s = Awaiting syncId s1"
  shows "\<exists>s2. pull_begin now' mode' s1 = Awaiting (Sync now') s2"
  using pull_begin_Awaiting [OF assms]
  by (simp add: pull_begin_def Let_def btoa_def showMessage_def)

text \<open>
  When \<open>currentSyncId\<close> is set, which is between a successful sync in either direction
  and the next run of the poller, a call is turned away: nothing is requested and storage
  is left as it was.
\<close>

lemma guard_rejects:
  assumes "serverUrl s \<noteq> []" "username s \<noteq> []" "password s \<noteq> []" "currentSyncId s \<noteq> None"
  shows "handleSyncToWebDAV now exportedAt now' r s
           = s\<lparr>testMessage := Some (Msg_info, Tr ''syncTaskInProgress'')\<rparr>"
    and "syncFromWebDAV now mode now' r s
           = s\<lparr>testMessage := Some (Msg_info, Tr ''syncTaskInProgress'')\<rparr>"
  using assms
  by (simp_all add: handleSyncToWebDAV_def syncFromWebDAV_def push_begin_def pull_begin_def
        showMessage_def)

text \<open>
  C2. A second sync called in the direction of one that is in progress is to be turned
  away with no request sent and no status record written. Evaluated on the component
  while its first upload awaits the \<open>PUT\<close> response (status record \<open>In_progress\<close> with
  id \<open>Sync 1000\<close>, requests \<open>MKCOL, PUT\<close> sent): a second call goes ahead, sends
  \<open>MKCOL\<close> and \<open>PUT\<close> again and overwrites the status record with its own id.
\<close>

theorem second_push_while_in_progress:
  "map_option status (webdav_sync_status (local pushing)) = Some In_progress
   \<and> map_option sync_id (webdav_sync_status (local pushing)) = Some (Sync 1000)
   \<and> map http_method (fetched pushing) = [MKCOL, PUT]
   \<and> push_begin 1200 ''2025-01-01T00:00:00.200Z'' pushing
       = Awaiting (Sync 1200) (state_of (push_begin 1200 ''2025-01-01T00:00:00.200Z'' pushing))
   \<and> map http_method (fetched (state_of (push_begin 1200 ''2025-01-01T00:00:00.200Z'' pushing)))
       = [MKCOL, PUT, MKCOL, PUT]
   \<and> map_option sync_id (webdav_sync_status
        (local (state_of (push_begin 1200 ''2025-01-01T00:00:00.200Z'' pushing))))
       = Some (Sync 1200)"
  by (simp add: pushing_def run_defs idle_def)

section \<open>A sync that fails\<close>

text \<open>
  The \<open>catch\<close> blocks show the error and store it under a \<open>temp_webdav_message_\<close> key;
  they write nothing under \<open>webdav_sync_status\<close> or \<open>webdav_from_sync_status\<close>, so the
  record of the direction stays as the first half of the handler left it.
\<close>

lemma failed_push_keeps_status:
  "push_try now syncId r s = Inl e \<Longrightarrow>
   get_status k (local (push_complete now syncId r s)) = get_status k (local s)"
  by (cases k) (simp_all add: push_complete_def push_catch_def showMessage_def)

lemma failed_pull_keeps_status:
  "pull_try now mode syncId r s = Inl e \<Longrightarrow>
   get_status k (local (pull_complete now mode syncId r s)) = get_status k (local s)"
  by (cases k) (simp_all add: pull_complete_def pull_catch_def showMessage_def)

text \<open>
  A user name or password that \<open>btoa\<close> refuses fails the same way, before any request:
  the handler returns from its first half with the error on display.
\<close>

lemma refused_credentials_push:
  assumes "serverUrl s \<noteq> []" "username s \<noteq> []" "password s \<noteq> []" "currentSyncId s = None"
    and "\<not> list_all (\<lambda>c. c \<le> 255) (basic (username s) (password s))"
  shows "\<exists>s'. push_begin now exportedAt s = Returned s' \<and> fetched s' = fetched s \<and>
           testMessage s' = Some (Msg_error,
             Colon (Tr ''syncToWebDAVFailed'') (Engine InvalidCharacterError))"
  using assms
  by (simp add: push_begin_def push_catch_def btoa_def showMessage_def Let_def)

lemma refused_credentials_pull:
  assumes "serverUrl s \<noteq> []" "username s \<noteq> []" "password s \<noteq> []" "currentSyncId s = None"
    and "\<not> list_all (\<lambda>c. c \<le> 255) (basic (username s) (password s))"
  shows "\<exists>s'. pull_begin now mode s = Returned s' \<and> fetched s' = fetched s \<and>
           testMessage s' = Some (Msg_error,
             Colon (Tr ''syncFromWebDAVFailed'') (Engine InvalidCharacterError))"
  using assms
  by (simp add: pull_begin_def pull_catch_def btoa_def showMessage_def Let_def)

text \<open>
  C3. A push or pull that fails after its \<open>In_progress\<close> record is written is to write
  a terminal record with status \<open>Error\<close> under the key of its direction and report the
  error. Evaluated on an upload answered with status 500 and on a download answered with
  status 404: the error is shown and stored as a temporary message, and the record of
  the direction still says \<open>In_progress\<close>.
\<close>

theorem failed_sync_leaves_in_progress:
  "map_option status (webdav_sync_status (local
      (handleSyncToWebDAV 1000 ''2025-01-01T00:00:00.000Z'' 1500 (Response 500 None) idle)))
     = Some In_progress
   \<and> testMessage (handleSyncToWebDAV 1000 ''2025-01-01T00:00:00.000Z'' 1500 (Response 500 None) idle)
     = Some (Msg_error, Colon (Tr ''syncToWebDAVFailed'') (HTTP 500))
   \<and> map fst (temp_webdav_message (local
      (handleSyncToWebDAV 1000 ''2025-01-01T00:00:00.000Z'' 1500 (Response 500 None) idle)))
     = [1500]
   \<and> map_option status (webdav_from_sync_status (local
      (syncFromWebDAV 1000 Replace 1500 (Response 404 None) idle)))
     = Some In_progress
   \<and> testMessage (syncFromWebDAV 1000 Replace 1500 (Response 404 None) idle)
     = Some (Msg_error, Colon (Tr ''syncFromWebDAVFailed'') (Tr ''webdavFileNotFound''))"
  by (simp add: run_defs idle_def)

section \<open>Replace mode\<close>

lemma pull_replace_result:
  assumes "pull_try now Replace syncId (Response st (Some D)) s = Inr s'"
  shows "prompts (local s') = field D ''prompts'' \<and>
         categories (local s') = Some (or_empty (field D ''categories''))"
proof -
  from pull_try_Inr [OF assms] obtain stg where
    stg: "store_downloaded Replace D (local s) = Inr stg" and
    eq: "prompts (local s') = prompts stg" "categories (local s') = categories stg"
    by auto
  from stg eq show ?thesis by auto
qed

lemma pull_replace_eval:
  "\<not> isl (pull_try 2000 Replace (Sync 1000)
            (Response 200 (Some (document (JArr [entry ''a'']) c))) idle)"
  by (simp add: ok_def document_def entry_def idle_def or_empty_def Let_def
        showMessage_def startSyncStatusPolling_def)

lemma pull_replace_eval_no_categories:
  "\<not> isl (pull_try 2000 Replace (Sync 1000)
            (Response 200 (Some (JObj [(''prompts'', JArr [entry ''a''])]))) idle)"
  by (simp add: ok_def entry_def idle_def or_empty_def Let_def
        showMessage_def startSyncStatusPolling_def)

text \<open>
  C4, as the code has it. When a pull in replace mode goes through on a downloaded
  document \<open>D\<close>, the stored prompts afterwards are \<open>D.prompts\<close>; the stored categories
  are \<open>D.categories\<close> when that is present and truthy, and the empty array when it is
  absent or falsy (\<open>null\<close>, \<open>false\<close>, \<open>0\<close>, the empty string).
\<close>

theorem replace_overwrites:
  assumes "pull_try now Replace syncId (Response st (Some D)) s = Inr s'"
  shows "prompts (local s') = field D ''prompts''
       \<and> (truthy_opt (field D ''categories'') \<longrightarrow> categories (local s') = field D ''categories'')
       \<and> (\<not> truthy_opt (field D ''categories'') \<longrightarrow> categories (local s') = Some (JArr []))"
  using pull_replace_result [OF assms]
  by (auto simp: or_empty_def elim: truthy_opt.elims)

theorem replace_overwrites_witness:
  "categories (local (projr (pull_try 2000 Replace (Sync 1000)
       (Response 200 (Some (document (JArr [entry ''a'']) (JArr [entry ''k''])))) idle)))
     = Some (JArr [entry ''k''])
   \<and> prompts (local (projr (pull_try 2000 Replace (Sync 1000)
       (Response 200 (Some (document (JArr [entry ''a'']) (JArr [entry ''k''])))) idle)))
     = Some (JArr [entry ''a''])
   \<and> categories (local (projr (pull_try 2000 Replace (Sync 1000)
       (Response 200 (Some (JObj [(''prompts'', JArr [entry ''a''])]))) idle)))
     = Some (JArr [])"
proof -
  have h1: "pull_try 2000 Replace (Sync 1000)
       (Response 200 (Some (document (JArr [entry ''a'']) (JArr [entry ''k''])))) idle
     = Inr (projr (pull_try 2000 Replace (Sync 1000)
       (Response 200 (Some (document (JArr [entry ''a'']) (JArr [entry ''k''])))) idle))"
    using pull_replace_eval by (rule not_isl_projr)
  have h2: "pull_try 2000 Replace (Sync 1000)
       (Response 200 (Some (JObj [(''prompts'', JArr [entry ''a''])]))) idle
     = Inr (projr (pull_try 2000 Replace (Sync 1000)
       (Response 200 (Some (JObj [(''prompts'', JArr [entry ''a''])]))) idle))"
    using pull_replace_eval_no_categories by (rule not_isl_projr)
  from replace_overwrites [OF h1] replace_overwrites [OF h2] show ?thesis
    by (simp add: document_def)
qed

text \<open>
  C4 as stated fails where \<open>D.categories\<close> is present and falsy: the document
  \<open>{"version": 1, "prompts": [{"id": "a"}], "categories": false}\<close> is accepted, its
  \<open>categories\<close> is \<open>false\<close>, and the stored categories become the empty array.
\<close>

theorem replace_falsy_categories_counterexample:
  "\<not> isl (pull_try 2000 Replace (Sync 1000)
            (Response 200 (Some (document (JArr [entry ''a'']) (JBool False)))) idle)
   \<and> field (document (JArr [entry ''a'']) (JBool False)) ''categories'' = Some (JBool False)
   \<and> categories (local (projr (pull_try 2000 Replace (Sync 1000)
            (Response 200 (Some (document (JArr [entry ''a'']) (JBool False)))) idle)))
       = Some (JArr [])
   \<and> categories (local (projr (pull_try 2000 Replace (Sync 1000)
            (Response 200 (Some (document (JArr [entry ''a'']) (JBool False)))) idle)))
       \<noteq> field (document (JArr [entry ''a'']) (JBool False)) ''categories''"
  by (simp add: ok_def document_def entry_def idle_def or_empty_def Let_def
        showMessage_def startSyncStatusPolling_def)

text \<open>
  C10. Only \<open>prompts\<close> is checked to be an array. When the downloaded document has an
  array under \<open>prompts\<close> and a truthy value that is not an array under \<open>categories\<close>, a
  pull in replace mode raises no error, reports success and stores that value as the
  local categories.
\<close>

theorem replace_stores_non_array_categories:
  assumes "ok st" "field D ''prompts'' = Some (JArr ps)"
    and "field D ''categories'' = Some c" "truthy c" "\<not> isArray (Some c)"
  shows "\<exists>s'. pull_try now Replace syncId (Response st (Some D)) s = Inr s' \<and>
           prompts (local s') = Some (JArr ps) \<and> categories (local s') = Some c \<and>
           testMessage s' = Some (Msg_success, Tr ''syncFromWebDAVSuccess'')"
proof -
  from assms(3,4) have "store_downloaded Replace D (local s) =
      Inr ((local s)\<lparr>prompts := field D ''prompts'', categories := Some c\<rparr>)"
    by (simp add: or_empty_def)
  from pull_try_store [OF assms(1,2) this, of now syncId] assms(2) show ?thesis
    by auto
qed

theorem replace_stores_non_array_categories_witness:
  "ok 200 \<and> truthy (JStr ''work'') \<and> \<not> isArray (Some (JStr ''work'')) \<and>
   (\<exists>s'. pull_try 2000 Replace (Sync 1000)
       (Response 200 (Some (document (JArr [entry ''a'']) (JStr ''work'')))) idle = Inr s' \<and>
     prompts (local s') = Some (JArr [entry ''a'']) \<and>
     categories (local s') = Some (JStr ''work''))"
  using replace_stores_non_array_categories
    [of 200 "document (JArr [entry ''a'']) (JStr ''work'')" "[entry ''a'']" "JStr ''work''"
        2000 "Sync 1000" idle]
  by (simp add: ok_def document_def)

section \<open>Errors of the download\<close>

text \<open>
  What the download throws: the translated not-found text on 404, \<open>HTTP\<close> with the
  status on any other status outside 200 to 299, and the translated invalid-format text
  on a JSON body other than \<open>null\<close> whose \<open>prompts\<close> is missing or not an array.
\<close>

lemma download_not_found:
  "pull_try now mode syncId (Response 404 b) s = Inl (NewError (Tr ''webdavFileNotFound''))"
  by (simp add: ok_def)

lemma download_http_error:
  "\<not> ok st \<Longrightarrow> st \<noteq> 404 \<Longrightarrow>
   pull_try now mode syncId (Response st b) s = Inl (NewError (HTTP st))"
  by simp

lemma download_invalid_format:
  assumes "ok st" "D \<noteq> JNull" "\<not> isArray (field D ''prompts'')"
  shows "pull_try now mode syncId (Response st (Some D)) s
           = Inl (NewError (Tr ''invalidWebDAVDataFormat''))"
proof -
  from assms(2) have "get_prop D ''prompts'' = Inr (field D ''prompts'')"
    by (cases D) auto
  with assms(1,3) show ?thesis by simp
qed

text \<open>
  C5. A 404 is to give the file-not-found error, another status outside 200 to 299 the
  HTTP error with that status, and an ok response whose JSON body has no array under
  \<open>prompts\<close> the invalid-data-format error. Evaluated on an ok response whose body is
  the JSON value \<open>null\<close>, which has no \<open>prompts\<close>: reading \<open>syncData.prompts\<close> raises a
  \<open>TypeError\<close> before the check, and the message shown carries the wording of the
  runtime for it, not the invalid-format text.
\<close>

theorem null_body_type_error:
  "pull_try now mode syncId (Response 200 (Some JNull)) s = Inl (RuntimeError TypeError)
   \<and> testMessage (syncFromWebDAV 1000 Replace 1500 (Response 200 (Some JNull)) idle)
     = Some (Msg_error, Colon (Tr ''syncFromWebDAVFailed'') (Engine TypeError))"
  by (simp add: run_defs idle_def)

section \<open>The connection test\<close>

text \<open>
  C6, as the code has it. \<open>testWebDAVConnection\<close>, for any url and for a user name and
  password that hold no character above U+00FF, sends one \<open>PROPFIND\<close>, and: a response
  with a status from 200 to 299 (207 among them) gives success; 401 gives the
  authentication-failed text; any other status outside 200 to 299 gives the
  connection-failed text with that status; a rejected request gives the message of the
  rejection when that is not empty, and the translated connection-test text when it is
  empty.
\<close>

theorem testWebDAVConnection_results:
  assumes "list_all (\<lambda>c. c \<le> 255) (basic user pass)"
  shows "fst (testWebDAVConnection u user pass r) = [propfind u (basic user pass)]
   \<and> (ok st1 \<or> st1 = 207 \<longrightarrow>
        snd (testWebDAVConnection u user pass (Response st1 b1))
          = \<lparr>success = True, error = None\<rparr>)
   \<and> snd (testWebDAVConnection u user pass (Response 401 b2))
        = \<lparr>success = False, error = Some (Tr ''webdavAuthFailed'')\<rparr>
   \<and> (\<not> ok st3 \<and> st3 \<noteq> 401 \<longrightarrow>
        snd (testWebDAVConnection u user pass (Response st3 b3))
          = \<lparr>success = False, error = Some (Colon (Tr ''webdavConnectionFailed'') (Num st3))\<rparr>)
   \<and> (m \<noteq> [] \<longrightarrow>
        snd (testWebDAVConnection u user pass (Rejected m))
          = \<lparr>success = False, error = Some (Raw m)\<rparr>)
   \<and> snd (testWebDAVConnection u user pass (Rejected []))
        = \<lparr>success = False, error = Some (Tr ''testConnectionError'')\<rparr>"
  using assms by (auto simp: testWebDAVConnection_def btoa_def ok_def)

theorem testWebDAVConnection_results_witness:
  "list_all (\<lambda>c. c \<le> 255) (basic [97, 110, 110] [112, 119]) \<and>
   fst (testWebDAVConnection ''https://dav.example.org/'' [97, 110, 110] [112, 119]
          (Response 207 None))
     = [propfind ''https://dav.example.org/'' (basic [97, 110, 110] [112, 119])] \<and>
   (ok 207 \<or> (207::nat) = 207) \<and>
   snd (testWebDAVConnection ''https://dav.example.org/'' [97, 110, 110] [112, 119]
          (Response 207 None))
     = \<lparr>success = True, error = None\<rparr> \<and>
   \<not> ok 503 \<and> (503::nat) \<noteq> 401 \<and>
   snd (testWebDAVConnection ''https://dav.example.org/'' [97, 110, 110] [112, 119]
          (Response 503 None))
     = \<lparr>success = False, error = Some (Colon (Tr ''webdavConnectionFailed'') (Num 503))\<rparr> \<and>
   ''Failed to fetch'' \<noteq> [] \<and>
   snd (testWebDAVConnection ''https://dav.example.org/'' [97, 110, 110] [112, 119]
          (Rejected ''Failed to fetch''))
     = \<lparr>success = False, error = Some (Raw ''Failed to fetch'')\<rparr>"
proof -
  have h: "list_all (\<lambda>c. c \<le> 255) (basic [97, 110, 110] [112, 119])"
    by (simp add: basic_def)
  from testWebDAVConnection_results [OF h, of "''https://dav.example.org/''"
      "Response 207 None" 207 None None 503 None "''Failed to fetch''"] h
  show ?thesis
    by (simp add: ok_def)
qed

text \<open>
  C6 as stated fails in two places. With the user name of the two characters U+7528
  and U+6237, \<open>btoa\<close> throws before \<open>fetch\<close> is called: no \<open>PROPFIND\<close> is sent and the
  result is a failure with the runtime's wording, whatever the server would have
  answered (here 207). And a rejection whose message is empty gives the translated
  connection-test text, not the message.
\<close>

theorem testWebDAVConnection_counterexample:
  "testWebDAVConnection ''https://dav.example.org/'' [29992, 25143] [112, 119]
     (Response 207 None)
     = ([], \<lparr>success = False, error = Some (Engine InvalidCharacterError)\<rparr>)
   \<and> snd (testWebDAVConnection ''https://dav.example.org/'' [97, 110, 110] [112, 119]
          (Rejected []))
     = \<lparr>success = False, error = Some (Tr ''testConnectionError'')\<rparr>
   \<and> Tr ''testConnectionError'' \<noteq> Raw []"
  by (simp add: testWebDAVConnection_def btoa_def basic_def)

section \<open>Upload, then download in replace mode\<close>

lemma or_empty_truthy: "truthy (or_empty x)"
  by (cases x) (auto simp: or_empty_def)

lemma or_empty_idem: "or_empty (Some (or_empty x)) = or_empty x"
  using or_empty_truthy [of x] by (simp add: or_empty_def)

text \<open>
  C7. Let an upload succeed, with \<open>d\<close> the document its \<open>PUT\<close> carried, and let a later
  pull in replace mode, from a component with the same server url and sync path, be
  answered with \<open>d\<close> and go through. Then the \<open>GET\<close> went to the url of the \<open>PUT\<close>,
  \<open>d\<close> holds under \<open>prompts\<close> and \<open>categories\<close> what the upload read from storage, and
  the stored collections after the pull are exactly those two values.
\<close>

theorem push_then_pull_replace:
  assumes "push_begin now exportedAt s = Awaiting syncId s1"
    and "push_try now1 syncId (Response st b) s1 = Inr s2"
    and "body (last (fetched s1)) = Some d"
    and "serverUrl t = serverUrl s" "syncPath t = syncPath s"
    and "pull_begin now2 Replace t = Awaiting syncId' t1"
    and "pull_try now3 Replace syncId' (Response st' (Some d)) t1 = Inr t2"
  shows "http_method (last (fetched s1)) = PUT \<and> http_method (last (fetched t1)) = GET
       \<and> url (last (fetched t1)) = url (last (fetched s1))
       \<and> field d ''prompts'' = Some (or_empty (prompts (local s)))
       \<and> field d ''categories'' = Some (or_empty (categories (local s)))
       \<and> prompts (local t2) = field d ''prompts''
       \<and> categories (local t2) = field d ''categories''"
proof -
  note p = push_begin_Awaiting [OF assms(1)]
  note g = pull_begin_Awaiting [OF assms(6)]
  from p assms(3) have d: "d = syncData exportedAt (local s)"
    by simp
  from p g assms(4,5) have u: "url (last (fetched t1)) = url (last (fetched s1))"
    by (simp add: fullPath_def)
  from d have f: "field d ''prompts'' = Some (or_empty (prompts (local s)))"
    "field d ''categories'' = Some (or_empty (categories (local s)))"
    by (simp_all add: syncData_def)
  from pull_replace_result [OF assms(7)] f
  have "prompts (local t2) = field d ''prompts''" "categories (local t2) = field d ''categories''"
    by (simp_all add: or_empty_idem)
  with p g u f show ?thesis by simp
qed

theorem push_then_pull_replace_witness:
  "prompts (local wiped) = Some (JArr []) \<and> categories (local wiped) = Some (JArr []) \<and>
   prompts (local (projr (pull_try 3500 Replace (Sync 3000)
      (Response 200 (body (last (fetched (state_of (push_begin 1000 ''2025-01-01T00:00:00.000Z''
           (with_local (JArr [entry ''a'', entry ''b'']) (JArr [entry ''k'']) idle)))))))
      (state_of (pull_begin 3000 Replace wiped))))) = Some (JArr [entry ''a'', entry ''b'']) \<and>
   categories (local (projr (pull_try 3500 Replace (Sync 3000)
      (Response 200 (body (last (fetched (state_of (push_begin 1000 ''2025-01-01T00:00:00.000Z''
           (with_local (JArr [entry ''a'', entry ''b'']) (JArr [entry ''k'']) idle)))))))
      (state_of (pull_begin 3000 Replace wiped))))) = Some (JArr [entry ''k''])"
proof -
  let ?s = "with_local (JArr [entry ''a'', entry ''b'']) (JArr [entry ''k'']) idle"
  let ?e = "''2025-01-01T00:00:00.000Z''"
  let ?s1 = "state_of (push_begin 1000 ?e ?s)"
  let ?d = "syncData ?e (local ?s)"
  let ?t1 = "state_of (pull_begin 3000 Replace wiped)"
  have a1: "push_begin 1000 ?e ?s = Awaiting (Sync 1000) ?s1"
    by (simp add: push_begin_def with_local_def idle_def Let_def btoa_def basic_def
          showMessage_def)
  have a2: "push_try 1500 (Sync 1000) (Response 201 None) ?s1
      = Inr (projr (push_try 1500 (Sync 1000) (Response 201 None) ?s1))"
    by (simp add: ok_def Let_def)
  have a3: "body (last (fetched ?s1)) = Some ?d"
    using push_begin_Awaiting [OF a1] by simp
  have a4: "serverUrl wiped = serverUrl ?s" "syncPath wiped = syncPath ?s"
    by (simp_all add: wiped_def run_defs with_local_def idle_def)
  have a5: "pull_begin 3000 Replace wiped = Awaiting (Sync 3000) ?t1"
    by (simp add: wiped_def run_defs with_local_def idle_def)
  have "\<not> isl (pull_try 3500 Replace (Sync 3000) (Response 200 (Some ?d)) ?t1)"
    by (simp add: wiped_def run_defs with_local_def idle_def)
  then have a6: "pull_try 3500 Replace (Sync 3000) (Response 200 (Some ?d)) ?t1
      = Inr (projr (pull_try 3500 Replace (Sync 3000) (Response 200 (Some ?d)) ?t1))"
    by (rule not_isl_projr)
  have w: "prompts (local wiped) = Some (JArr [])" "categories (local wiped) = Some (JArr [])"
    by (simp_all add: wiped_def with_local_def)
  from push_then_pull_replace [OF a1 a2 a3 a4 a5 a6] a3 w show ?thesis
    by (simp add: syncData_def with_local_def idle_def or_empty_def)
qed

section \<open>Ids after an append\<close>

text \<open>
  C8, as the code has it. When a pull in append mode goes through, and neither the
  local prompts, nor the local categories, nor the prompts or the categories of the
  downloaded document hold two entries with the same id, then neither the prompts nor the
  categories stored afterwards hold two entries with the same id.
\<close>

theorem append_no_duplicate_ids:
  assumes "pull_try now Append syncId (Response st (Some D)) s = Inr s'"
    and "distinct_ids (elems (or_empty (prompts (local s))))"
    and "distinct_ids (elems (or_empty (categories (local s))))"
    and "distinct_ids (elems (or_empty (field D ''prompts'')))"
    and "distinct_ids (elems (or_empty (field D ''categories'')))"
  shows "\<exists>mp mc. prompts (local s') = Some (JArr mp) \<and> distinct_ids mp \<and>
                 categories (local s') = Some (JArr mc) \<and> distinct_ids mc"
  using pull_append_result [OF assms(1)] assms(2-)
  by (simp add: distinct_ids_merge)

theorem append_no_duplicate_ids_witness:
  "distinct_ids [entry ''a'', entry ''b''] \<and> distinct_ids [entry ''b'', entry ''c''] \<and>
   (\<exists>mp mc. prompts (local (projr (pull_try 2000 Append (Sync 1000)
       (Response 200 (Some (document (JArr [entry ''b'', entry ''c'']) (JArr []))))
       (with_local (JArr [entry ''a'', entry ''b'']) (JArr []) idle)))) = Some (JArr mp) \<and>
     distinct_ids mp \<and>
     categories (local (projr (pull_try 2000 Append (Sync 1000)
       (Response 200 (Some (document (JArr [entry ''b'', entry ''c'']) (JArr []))))
       (with_local (JArr [entry ''a'', entry ''b'']) (JArr []) idle)))) = Some (JArr mc) \<and>
     distinct_ids mc)"
proof -
  have h: "pull_try 2000 Append (Sync 1000)
     (Response 200 (Some (document (JArr [entry ''b'', entry ''c'']) (JArr []))))
     (with_local (JArr [entry ''a'', entry ''b'']) (JArr []) idle)
   = Inr (projr (pull_try 2000 Append (Sync 1000)
     (Response 200 (Some (document (JArr [entry ''b'', entry ''c'']) (JArr []))))
     (with_local (JArr [entry ''a'', entry ''b'']) (JArr []) idle)))"
    using pull_append_ab_bc by (rule not_isl_projr)
  have d: "distinct_ids [entry ''a'', entry ''b'']" "distinct_ids [entry ''b'', entry ''c'']"
    by (simp_all add: entry_def ids_def)
  have "distinct_ids (elems (or_empty (prompts (local
          (with_local (JArr [entry ''a'', entry ''b'']) (JArr []) idle)))))"
       "distinct_ids (elems (or_empty (categories (local
          (with_local (JArr [entry ''a'', entry ''b'']) (JArr []) idle)))))"
       "distinct_ids (elems (or_empty (field
          (document (JArr [entry ''b'', entry ''c'']) (JArr [])) ''prompts'')))"
       "distinct_ids (elems (or_empty (field
          (document (JArr [entry ''b'', entry ''c'']) (JArr [])) ''categories'')))"
    using d by (simp_all add: with_local_def idle_def document_def or_empty_def)
  from append_no_duplicate_ids [OF h this] d show ?thesis
    by simp
qed

text \<open>
  C8 as stated, with ids unique in the downloaded document only, fails where the local
  prompts already hold an id twice: local entries are kept as they are. Local prompts
  \<open>a, a\<close> and downloaded prompts \<open>c\<close> give \<open>a, a, c\<close>.
\<close>

theorem append_duplicate_ids_counterexample:
  "distinct_ids (elems (or_empty (field (document (JArr [entry ''c'']) (JArr [])) ''prompts'')))
   \<and> distinct_ids (elems (or_empty (field (document (JArr [entry ''c'']) (JArr [])) ''categories'')))
   \<and> \<not> isl (pull_try 2000 Append (Sync 1000)
        (Response 200 (Some (document (JArr [entry ''c'']) (JArr []))))
        (with_local (JArr [entry ''a'', entry ''a'']) (JArr []) idle))
   \<and> prompts (local (projr (pull_try 2000 Append (Sync 1000)
        (Response 200 (Some (document (JArr [entry ''c'']) (JArr []))))
        (with_local (JArr [entry ''a'', entry ''a'']) (JArr []) idle))))
      = Some (JArr [entry ''a'', entry ''a'', entry ''c''])
   \<and> \<not> distinct_ids [entry ''a'', entry ''a'', entry ''c'']"
  by (simp add: ok_def document_def entry_def with_local_def idle_def or_empty_def Let_def
        showMessage_def startSyncStatusPolling_def ids_def)

section \<open>Incomplete credentials\<close>

text \<open>
  C9. When the server url, the user name or the password is empty, a push and a pull
  return at once with the not-configured error on display: the list of requests is
  unchanged, and so is the status record under either direction's key, whatever the
  response would have been.
\<close>

theorem incomplete_credentials_short_circuit:
  assumes "serverUrl s = [] \<or> username s = [] \<or> password s = []"
  shows "fetched (handleSyncToWebDAV now exportedAt now' r s) = fetched s
       \<and> get_status k (local (handleSyncToWebDAV now exportedAt now' r s)) = get_status k (local s)
       \<and> testMessage (handleSyncToWebDAV now exportedAt now' r s)
           = Some (Msg_error, Tr ''webdavNotConfigured'')
       \<and> fetched (syncFromWebDAV now mode now' r s) = fetched s
       \<and> get_status k (local (syncFromWebDAV now mode now' r s)) = get_status k (local s)
       \<and> testMessage (syncFromWebDAV now mode now' r s)
           = Some (Msg_error, Tr ''webdavNotConfigured'')"
  using assms
  by (cases k) (auto simp: handleSyncToWebDAV_def syncFromWebDAV_def push_begin_def pull_begin_def
        showMessage_def Let_def)

theorem incomplete_credentials_short_circuit_witness:
  "(serverUrl (idle\<lparr>password := []\<rparr>) = [] \<or> username (idle\<lparr>password := []\<rparr>) = []
      \<or> password (idle\<lparr>password := []\<rparr>) = [])
   \<and> fetched (handleSyncToWebDAV 1000 ''2025-01-01T00:00:00.000Z'' 1500 (Response 201 None)
        (idle\<lparr>password := []\<rparr>)) = []
   \<and> get_status Webdav_sync_status (local (handleSyncToWebDAV 1000 ''2025-01-01T00:00:00.000Z''
        1500 (Response 201 None) (idle\<lparr>password := []\<rparr>))) = None
   \<and> fetched (syncFromWebDAV 1000 Append 1500 (Response 200 None) (idle\<lparr>password := []\<rparr>)) = []
   \<and> get_status Webdav_from_sync_status (local (syncFromWebDAV 1000 Append 1500 (Response 200 None)
        (idle\<lparr>password := []\<rparr>))) = None"
proof -
  have h: "serverUrl (idle\<lparr>password := []\<rparr>) = [] \<or> username (idle\<lparr>password := []\<rparr>) = []
      \<or> password (idle\<lparr>password := []\<rparr>) = []"
    by simp
  from incomplete_credentials_short_circuit [OF h, of 1000 "''2025-01-01T00:00:00.000Z''" 1500
      "Response 201 None" Webdav_sync_status Append]
    incomplete_credentials_short_circuit [OF h, of 1000 "''2025-01-01T00:00:00.000Z''" 1500
      "Response 200 None" Webdav_from_sync_status Append]
  show ?thesis
    by (simp add: idle_def)
qed

end
